theory Spec2Isabelle
  imports Complex_Main
begin

section \<open>Values, arguments and errors\<close>

text \<open>
  The module \<^verbatim>\<open>SimplePlot.py\<close> is a builder for a line chart. A number is a Python
  \<^verbatim>\<open>int\<close> or \<^verbatim>\<open>float\<close>: \<open>Fin r\<close> is the \<^verbatim>\<open>int\<close> or the finite \<^verbatim>\<open>float\<close> of value
  \<open>r\<close>, and \<open>PInf\<close>, \<open>NInf\<close> and \<open>NaN\<close> are the three other \<^verbatim>\<open>float\<close> values. Python
  compares two numbers by their values, exactly, also an \<^verbatim>\<open>int\<close> with a \<^verbatim>\<open>float\<close>;
  every comparison with \<open>NaN\<close> is false.
\<close>

datatype num = Fin real | PInf | NInf | NaN

fun num_lt :: "num \<Rightarrow> num \<Rightarrow> bool" where
  "num_lt NaN _ = False"
| "num_lt _ NaN = False"
| "num_lt (Fin a) (Fin b) = (a < b)"
| "num_lt (Fin _) PInf = True"
| "num_lt (Fin _) NInf = False"
| "num_lt PInf _ = False"
| "num_lt NInf NInf = False"
| "num_lt NInf _ = True"

fun num_le :: "num \<Rightarrow> num \<Rightarrow> bool" where
  "num_le NaN _ = False"
| "num_le _ NaN = False"
| "num_le (Fin a) (Fin b) = (a \<le> b)"
| "num_le (Fin _) PInf = True"
| "num_le (Fin _) NInf = False"
| "num_le PInf PInf = True"
| "num_le PInf _ = False"
| "num_le NInf _ = True"

text \<open>
  Every \<^verbatim>\<open>raise\<close> of the source is a value of \<open>error\<close>. All errors the module raises
  itself are \<^verbatim>\<open>RuntimeError\<close>; the \<open>reason\<close> stands for the message. \<open>TypeError\<close>,
  \<open>ValueError\<close> and \<open>OverflowError\<close> are raised by the builtins the module calls
  (\<^verbatim>\<open>float\<close>, \<^verbatim>\<open>min\<close>, \<^verbatim>\<open>max\<close>, \<^verbatim>\<open>os.access\<close>, the comparison of a number with
  \<^verbatim>\<open>None\<close>), \<open>IndexError\<close> by indexing a list out of range, \<open>FormatError\<close> by a
  failing string conversion that the source does not catch.
\<close>

datatype reason =
    NotAFilename
  | TitleConversion
  | LabelConversion
  | NegativeDpi
  | LimitsOnLogAxis
  | NotASequence
  | EmptyXData
  | XYLengthMismatch nat nat
  | YYLengthMismatch nat nat
  | LabelCount nat nat
  | NoXData
  | NoYData
  | NotWritable

datatype error =
    RuntimeError reason
  | TypeError
  | ValueError
  | OverflowError
  | IndexError
  | FormatError

text \<open>
  An argument with a default value other than \<^verbatim>\<open>None\<close> is \<open>Omitted\<close> or \<open>Given\<close>.
\<close>

datatype 'a arg = Omitted | Given 'a

definition default :: "'a \<Rightarrow> 'a arg \<Rightarrow> 'a" where
  "default d a = (case a of Omitted \<Rightarrow> d | Given v \<Rightarrow> v)"

text \<open>
  A value offered where text is expected is a \<^verbatim>\<open>str\<close>, or another object together
  with what its string conversion \<^verbatim>\<open>f"{v}"\<close> gives (\<open>None\<close> when the conversion raises).
\<close>

datatype text_arg = Str string | Obj "string option"

definition is_str :: "text_arg \<Rightarrow> bool" where
  "is_str a = (case a of Str _ \<Rightarrow> True | Obj _ \<Rightarrow> False)"

definition format_text :: "text_arg \<Rightarrow> string option" where
  "format_text a = (case a of Str s \<Rightarrow> Some s | Obj r \<Rightarrow> r)"

text \<open>
  A value offered where a number is expected is a \<^verbatim>\<open>float\<close>, an \<^verbatim>\<open>int\<close>, a text, or
  something \<^verbatim>\<open>float\<close> rejects with a \<^verbatim>\<open>TypeError\<close>. The builtin \<^verbatim>\<open>float\<close> returns a
  \<^verbatim>\<open>float\<close> as it is. What it makes of an \<^verbatim>\<open>int\<close> (the nearest \<^verbatim>\<open>float\<close>, or an
  \<^verbatim>\<open>OverflowError\<close>) and of a text (a \<^verbatim>\<open>float\<close>, \<^verbatim>\<open>nan\<close> and \<^verbatim>\<open>inf\<close> included, or a
  \<^verbatim>\<open>ValueError\<close>) are the two parameters \<open>builtins\<close> of the model.
\<close>

datatype num_arg = PyFloat num | PyInt int | Text string | NonNum

record builtins =
  float_of_int :: "int \<Rightarrow> num option"
  float_of_text :: "string \<Rightarrow> num option"

definition py_float :: "builtins \<Rightarrow> num_arg \<Rightarrow> error + num" where
  "py_float env v =
     (case v of
        PyFloat d \<Rightarrow> Inr d
      | PyInt i \<Rightarrow> (case float_of_int env i of None \<Rightarrow> Inl OverflowError | Some d \<Rightarrow> Inr d)
      | Text s \<Rightarrow> (case float_of_text env s of None \<Rightarrow> Inl ValueError | Some d \<Rightarrow> Inr d)
      | NonNum \<Rightarrow> Inl TypeError)"

text \<open>\<^verbatim>\<open>if v is not None: v = float(v)\<close>, as both bound setters do.\<close>

definition float_if_given :: "builtins \<Rightarrow> num_arg option \<Rightarrow> error + num option" where
  "float_if_given env v =
     (case v of
        None \<Rightarrow> Inr None
      | Some a \<Rightarrow> (case py_float env a of Inl e \<Rightarrow> Inl e | Inr d \<Rightarrow> Inr (Some d)))"

text \<open>
  A value offered where a data set is expected is a list or tuple (\<open>Seq\<close>) of numbers or
  a value of another type (\<open>NonSeq\<close>).
\<close>

datatype 'a seq_arg = Seq "'a list" | NonSeq

type_synonym data_arg = "num seq_arg"

text \<open>
  The builtins \<^verbatim>\<open>min\<close> and \<^verbatim>\<open>max\<close> walk the sequence and replace the element they
  hold by a later one that is smaller (greater); on an empty sequence they raise a
  \<^verbatim>\<open>ValueError\<close>.
\<close>

definition py_min :: "num list \<Rightarrow> error + num" where
  "py_min vs =
     (case vs of
        [] \<Rightarrow> Inl ValueError
      | v # rest \<Rightarrow> Inr (foldl (\<lambda>m w. if num_lt w m then w else m) v rest))"

definition py_max :: "num list \<Rightarrow> error + num" where
  "py_max vs =
     (case vs of
        [] \<Rightarrow> Inl ValueError
      | v # rest \<Rightarrow> Inr (foldl (\<lambda>m w. if num_lt m w then w else m) v rest))"

section \<open>The writability check\<close>

text \<open>
  The file system is what the operating system finds at each path: nothing, or a node
  of some kind that the current process may or may not write to. The library calls of
  \<^verbatim>\<open>check_file_writable\<close> read it and hand it on as it is. On a path with a NUL
  character \<^verbatim>\<open>os.path.exists\<close> and \<^verbatim>\<open>os.path.isfile\<close> return \<^verbatim>\<open>False\<close> and
  \<^verbatim>\<open>os.access\<close> raises a \<^verbatim>\<open>ValueError\<close>. \<^verbatim>\<open>os.path.dirname\<close> is the one of
  \<^verbatim>\<open>posixpath\<close>: the path up to its last slash, without trailing slashes unless it
  consists of slashes only.
\<close>

datatype kind = Regular | Directory | Special

record node =
  node_kind :: kind
  node_writable :: bool

type_synonym filesystem = "string \<Rightarrow> node option"

definition has_nul :: "string \<Rightarrow> bool" where
  "has_nul p = (CHR 0x00 \<in> set p)"

definition os_path_exists :: "string \<Rightarrow> filesystem \<Rightarrow> bool \<times> filesystem" where
  "os_path_exists p sys = (\<not> has_nul p \<and> sys p \<noteq> None, sys)"

definition os_path_isfile :: "string \<Rightarrow> filesystem \<Rightarrow> bool \<times> filesystem" where
  "os_path_isfile p sys =
     (\<not> has_nul p \<and> (case sys p of None \<Rightarrow> False | Some n \<Rightarrow> node_kind n = Regular), sys)"

definition writable_at :: "filesystem \<Rightarrow> string \<Rightarrow> bool" where
  "writable_at sys p = (case sys p of None \<Rightarrow> False | Some n \<Rightarrow> node_writable n)"

definition os_access_w :: "string \<Rightarrow> filesystem \<Rightarrow> (error + bool) \<times> filesystem" where
  "os_access_w p sys =
     (if has_nul p then (Inl ValueError, sys) else (Inr (writable_at sys p), sys))"

definition os_path_dirname :: "string \<Rightarrow> string" where
  "os_path_dirname p =
     (let i = length p - length (takeWhile (\<lambda>c. c \<noteq> CHR ''/'') (rev p));
          head = take i p
      in if head \<noteq> [] \<and> head \<noteq> replicate (length head) (CHR ''/'')
         then rev (dropWhile (\<lambda>c. c = CHR ''/'') (rev head))
         else head)"

datatype path_arg = PathStr string | PathOther

definition check_file_writable ::
  "filesystem \<Rightarrow> path_arg \<Rightarrow> (error + bool) \<times> filesystem" where
  "check_file_writable sys f =
     (case f of
        PathOther \<Rightarrow> (Inl (RuntimeError NotAFilename), sys)
      | PathStr p \<Rightarrow>
          (case os_path_exists p sys of
             (True, sys1) \<Rightarrow>
               (case os_path_isfile p sys1 of
                  (True, sys2) \<Rightarrow> os_access_w p sys2
                | (False, sys2) \<Rightarrow> (Inr False, sys2))
           | (False, sys1) \<Rightarrow>
               (let parent = os_path_dirname p;
                    parent = (if parent = [] then ''.'' else parent)
                in os_access_w parent sys1)))"

section \<open>The builder\<close>

record builder =
  dpi :: num
  x_data :: "num list option"
  y_data :: "num list list"
  x_label :: "string option"
  y_label :: "string option"
  title :: "string option"
  legend :: "string option list"
  y_limits :: "num option \<times> num option"
  x_limits :: "num option \<times> num option"
  log_x :: bool
  log_y :: bool
  grid :: "(string \<times> string) option"

text \<open>
  A method returns the exception it raised, if any, and the builder as the call left it:
  a method that raises after an assignment leaves the assignment behind.
\<close>

type_synonym outcome = "error option \<times> builder"

definition and_then :: "outcome \<Rightarrow> (builder \<Rightarrow> outcome) \<Rightarrow> outcome" where
  "and_then r f = (case r of (None, b) \<Rightarrow> f b | (Some e, b) \<Rightarrow> (Some e, b))"

definition new_builder :: "string option \<Rightarrow> builder" where
  "new_builder t =
     \<lparr> dpi = Fin 1200, x_data = None, y_data = [], x_label = None, y_label = None,
       title = t, legend = [], y_limits = (Some (Fin 0), None), x_limits = (None, None),
       log_x = False, log_y = False, grid = None \<rparr>"

definition init :: "text_arg option \<Rightarrow> error + builder" where
  "init t =
     (case t of
        None \<Rightarrow> Inr (new_builder None)
      | Some a \<Rightarrow>
          (case format_text a of
             None \<Rightarrow> Inl (RuntimeError TitleConversion)
           | Some s \<Rightarrow> Inr (new_builder (Some s))))"

definition set_dpi :: "builtins \<Rightarrow> num_arg \<Rightarrow> builder \<Rightarrow> outcome" where
  "set_dpi env v b =
     (case py_float env v of
        Inl e \<Rightarrow> (Some e, b)
      | Inr d \<Rightarrow>
          if num_le d (Fin 0) then (Some (RuntimeError NegativeDpi), b)
          else (None, b\<lparr>dpi := d\<rparr>))"

definition set_grid :: "string option arg \<Rightarrow> string arg \<Rightarrow> builder \<Rightarrow> outcome" where
  "set_grid color style b =
     (case default (Some ''darkgray'') color of
        None \<Rightarrow> (None, b\<lparr>grid := None\<rparr>)
      | Some c \<Rightarrow> (None, b\<lparr>grid := Some (c, default ''--'' style)\<rparr>))"

definition convert_label :: "text_arg option \<Rightarrow> error + string option" where
  "convert_label label =
     (case label of
        None \<Rightarrow> Inr None
      | Some a \<Rightarrow>
          if is_str a then Inr (format_text a)
          else (case format_text a of
                  None \<Rightarrow> Inl (RuntimeError LabelConversion)
                | Some s \<Rightarrow> Inr (Some s)))"

definition set_x_label :: "text_arg option \<Rightarrow> builder \<Rightarrow> outcome" where
  "set_x_label label b =
     (case convert_label label of
        Inl e \<Rightarrow> (Some e, b)
      | Inr l \<Rightarrow> (None, b\<lparr>x_label := l\<rparr>))"

definition set_y_label :: "text_arg option \<Rightarrow> builder \<Rightarrow> outcome" where
  "set_y_label label b =
     (case convert_label label of
        Inl e \<Rightarrow> (Some e, b)
      | Inr l \<Rightarrow> (None, b\<lparr>y_label := l\<rparr>))"

text \<open>
  Both bound setters end with an assignment to \<^verbatim>\<open>self.__y_limits\<close>
  (lines 149 and 170 of the source).
\<close>

definition set_x_limits ::
  "builtins \<Rightarrow> num_arg option \<Rightarrow> num_arg option \<Rightarrow> builder \<Rightarrow> outcome" where
  "set_x_limits env xmin xmax b =
     (if log_x b then (Some (RuntimeError LimitsOnLogAxis), b)
      else
        (case float_if_given env xmin of
           Inl e \<Rightarrow> (Some e, b)
         | Inr lo \<Rightarrow>
             (case float_if_given env xmax of
                Inl e \<Rightarrow> (Some e, b)
              | Inr hi \<Rightarrow> (None, b\<lparr>y_limits := (lo, hi)\<rparr>))))"

definition set_y_limits ::
  "builtins \<Rightarrow> num_arg option arg \<Rightarrow> num_arg option \<Rightarrow> builder \<Rightarrow> outcome" where
  "set_y_limits env ymin ymax b =
     (if log_y b then (Some (RuntimeError LimitsOnLogAxis), b)
      else
        (case float_if_given env (default (Some (PyFloat (Fin 0))) ymin) of
           Inl e \<Rightarrow> (Some e, b)
         | Inr lo \<Rightarrow>
             (case float_if_given env ymax of
                Inl e \<Rightarrow> (Some e, b)
              | Inr hi \<Rightarrow> (None, b\<lparr>y_limits := (lo, hi)\<rparr>))))"

definition save :: "string \<Rightarrow> builder \<Rightarrow> outcome" where
  "save filename b = (None, b)"

text \<open>
  The two retraction checks are written out twice in the source, in \<^verbatim>\<open>set_x_data\<close>
  on \<^verbatim>\<open>self.__x_limits\<close> (lines 199 to 207) and in \<^verbatim>\<open>add_y_data\<close> on
  \<^verbatim>\<open>self.__y_limits\<close> (lines 235 to 243), the same text up to the field. Each takes the
  new data and the pair of limits and gives the pair it assigns, or the exception.
  The second check compares the maximum with component 0 of the pair, as both places
  of the source do; when that component is \<^verbatim>\<open>None\<close> the comparison raises.
\<close>

definition lower_check ::
  "num list \<Rightarrow> num option \<times> num option \<Rightarrow> error + num option \<times> num option" where
  "lower_check vs lims =
     (case fst lims of
        None \<Rightarrow> Inr lims
      | Some l0 \<Rightarrow>
          (case py_min vs of
             Inl e \<Rightarrow> Inl e
           | Inr m \<Rightarrow> if num_lt m l0 then Inr (None, snd lims) else Inr lims))"

definition upper_check ::
  "num list \<Rightarrow> num option \<times> num option \<Rightarrow> error + num option \<times> num option" where
  "upper_check vs lims =
     (case snd lims of
        None \<Rightarrow> Inr lims
      | Some l1 \<Rightarrow>
          (case py_max vs of
             Inl e \<Rightarrow> Inl e
           | Inr m \<Rightarrow>
               (case fst lims of
                  None \<Rightarrow> Inl TypeError
                | Some l0 \<Rightarrow> if num_lt l0 m then Inr (fst lims, None) else Inr lims)))"

definition set_x_data :: "data_arg \<Rightarrow> builder \<Rightarrow> outcome" where
  "set_x_data x b =
     (case x of
        NonSeq \<Rightarrow> (Some (RuntimeError NotASequence), b)
      | Seq xs \<Rightarrow>
          if length xs \<le> 0 then (Some (RuntimeError EmptyXData), b)
          else if length (y_data b) > 0 \<and> length xs \<noteq> length (y_data b ! 0)
          then (Some (RuntimeError (XYLengthMismatch (length (y_data b ! 0)) (length xs))), b)
          else
            (case lower_check xs (x_limits b) of
               Inl e \<Rightarrow> (Some e, b)
             | Inr lim1 \<Rightarrow>
                 (case upper_check xs lim1 of
                    Inl e \<Rightarrow> (Some e, b\<lparr>x_limits := lim1\<rparr>)
                  | Inr lim2 \<Rightarrow> (None, b\<lparr>x_limits := lim2, x_data := Some xs\<rparr>))))"

definition y_length_error :: "num list \<Rightarrow> builder \<Rightarrow> reason option" where
  "y_length_error ys b =
     (case x_data b of
        Some xs \<Rightarrow>
          if length ys \<noteq> length xs then Some (XYLengthMismatch (length ys) (length xs))
          else None
      | None \<Rightarrow>
          if length (y_data b) > 0 \<and> length ys \<noteq> length (y_data b ! 0)
          then Some (YYLengthMismatch (length ys) (length (y_data b ! 0)))
          else None)"

definition add_y_data :: "data_arg \<Rightarrow> text_arg option \<Rightarrow> builder \<Rightarrow> outcome" where
  "add_y_data y label b =
     (case y of
        NonSeq \<Rightarrow> (Some (RuntimeError NotASequence), b)
      | Seq ys \<Rightarrow>
          (case y_length_error ys b of
             Some r \<Rightarrow> (Some (RuntimeError r), b)
           | None \<Rightarrow>
               (case (case label of None \<Rightarrow> Some None
                      | Some a \<Rightarrow> map_option Some (format_text a)) of
                  None \<Rightarrow> (Some FormatError, b)
                | Some lab \<Rightarrow>
                    (case lower_check ys (y_limits b) of
                       Inl e \<Rightarrow> (Some e, b)
                     | Inr lim1 \<Rightarrow>
                         (case upper_check ys lim1 of
                            Inl e \<Rightarrow> (Some e, b\<lparr>y_limits := lim1\<rparr>)
                          | Inr lim2 \<Rightarrow>
                              (None, b\<lparr>y_limits := lim2,
                                       legend := legend b @ [lab],
                                       y_data := y_data b @ [ys]\<rparr>))))))"

text \<open>
  The loop \<^verbatim>\<open>for i in range(len(y_list))\<close> of \<^verbatim>\<open>add_y_sets\<close>: one call per index,
  ended by the first call that raises.
\<close>

primrec for_each :: "(nat \<Rightarrow> builder \<Rightarrow> outcome) \<Rightarrow> nat list \<Rightarrow> builder \<Rightarrow> outcome" where
  "for_each body [] b = (None, b)"
| "for_each body (i # rest) b = and_then (body i b) (for_each body rest)"

definition add_y_sets ::
  "data_arg seq_arg \<Rightarrow> text_arg option seq_arg option \<Rightarrow> builder \<Rightarrow> outcome" where
  "add_y_sets y_list y_labels b =
     (case y_list of
        NonSeq \<Rightarrow> (Some (RuntimeError NotASequence), b)
      | Seq ys \<Rightarrow>
          (case y_labels of
             None \<Rightarrow> for_each (\<lambda>i. add_y_data (ys ! i) None) [0..<length ys] b
           | Some NonSeq \<Rightarrow> (Some (RuntimeError NotASequence), b)
           | Some (Seq ls) \<Rightarrow>
               if length ls \<noteq> length ys
               then (Some (RuntimeError (LabelCount (length ls) (length ys))), b)
               else for_each (\<lambda>i. add_y_data (ys ! i) (ls ! i)) [0..<length ys] b))"

definition set_log_scale :: "bool arg \<Rightarrow> bool arg \<Rightarrow> builder \<Rightarrow> outcome" where
  "set_log_scale x y b =
     (let x = default False x;
          y = default False y;
          b = b\<lparr>log_x := x, log_y := y\<rparr>;
          b = (if x then b\<lparr>x_limits := (None, None)\<rparr> else b);
          b = (if y then b\<lparr>y_limits := (None, None)\<rparr> else b)
      in (None, b))"

section \<open>Finalising: what is handed to the rendering engine\<close>

text \<open>
  \<^verbatim>\<open>create\<close> drives matplotlib. The model records what the calls carry: the X series,
  one line per Y series with the label passed for it, whether \<^verbatim>\<open>ax.legend\<close> is called,
  for each axis the limits passed or the logarithmic scale, the texts, the grid, and
  whether the figure is saved (with the file name and the dpi) or shown. What matplotlib
  does with them is outside the model.
\<close>

datatype axis = Linear "num option \<times> num option" | Logarithmic

datatype target = SaveFig path_arg num | Display

record render_call =
  plot_x :: "num list"
  plot_lines :: "(num list \<times> string option) list"
  plot_legend :: bool
  plot_x_axis :: axis
  plot_y_axis :: axis
  plot_x_label :: "string option"
  plot_y_label :: "string option"
  plot_title :: "string option"
  plot_grid :: "(string \<times> string) option"
  plot_target :: target

text \<open>
  \<^verbatim>\<open>create\<close> gives the exception raised (if any), the builder as the call left it and
  the delegation made (if any). The test \<^verbatim>\<open>self.__y_data is None\<close> of the source
  (line 304) cannot succeed: the field always holds a list, here by its type. The loop
  of lines 313 to 317 assigns \<^verbatim>\<open>''\<close> to every entry of \<^verbatim>\<open>self.__legend\<close> that is
  \<^verbatim>\<open>None\<close>; the loop of lines 322 to 325 reads \<^verbatim>\<open>self.__legend[i]\<close> for every
  index of \<^verbatim>\<open>self.__y_data\<close>, an \<^verbatim>\<open>IndexError\<close> if there are fewer labels than
  series.
\<close>

definition create :: "filesystem \<Rightarrow> path_arg option \<Rightarrow> builder \<Rightarrow> error option \<times> builder \<times> render_call option" where
  "create sys filename b =
     (case x_data b of
        None \<Rightarrow> (Some (RuntimeError NoXData), b, None)
      | Some xs \<Rightarrow>
          (case (case filename of None \<Rightarrow> Inr True | Some f \<Rightarrow> fst (check_file_writable sys f)) of
             Inl e \<Rightarrow> (Some e, b, None)
           | Inr writable \<Rightarrow>
               if \<not> writable then (Some (RuntimeError NotWritable), b, None)
               else
                 (let use_legend = list_ex (\<lambda>elem. elem \<noteq> None) (legend b);
                      b' = b\<lparr>legend := map (\<lambda>elem. if elem = None then Some [] else elem) (legend b)\<rparr>
                  in if length (legend b') < length (y_data b') then (Some IndexError, b', None)
                     else
                       (None, b',
                        Some \<lparr> plot_x = xs,
                               plot_lines = map (\<lambda>i. (y_data b' ! i, legend b' ! i)) [0..<length (y_data b')],
                               plot_legend = use_legend,
                               plot_x_axis = (if \<not> log_x b' then Linear (x_limits b') else Logarithmic),
                               plot_y_axis = (if \<not> log_y b' then Linear (y_limits b') else Logarithmic),
                               plot_x_label = x_label b',
                               plot_y_label = y_label b',
                               plot_title = title b',
                               plot_grid = grid b',
                               plot_target = (case filename of None \<Rightarrow> Display
                                              | Some f \<Rightarrow> SaveFig f (dpi b')) \<rparr>))))"

section \<open>Sequences of calls\<close>

text \<open>
  A client calls the methods in any order, and may catch an exception and go on with the
  builder as the failed call left it. \<open>run\<close> gives the builder after a list of calls.
\<close>

datatype op =
    SetDpi num_arg
  | SetGrid "string option arg" "string arg"
  | SetXLabel "text_arg option"
  | SetYLabel "text_arg option"
  | SetXLimits "num_arg option" "num_arg option"
  | SetYLimits "num_arg option arg" "num_arg option"
  | Save string
  | SetXData data_arg
  | AddYData data_arg "text_arg option"
  | AddYSets "data_arg seq_arg" "text_arg option seq_arg option"
  | SetLogScale "bool arg" "bool arg"
  | Create "path_arg option"

fun exec :: "builtins \<Rightarrow> filesystem \<Rightarrow> op \<Rightarrow> builder \<Rightarrow> outcome" where
  "exec env sys (SetDpi v) b = set_dpi env v b"
| "exec env sys (SetGrid c s) b = set_grid c s b"
| "exec env sys (SetXLabel l) b = set_x_label l b"
| "exec env sys (SetYLabel l) b = set_y_label l b"
| "exec env sys (SetXLimits lo hi) b = set_x_limits env lo hi b"
| "exec env sys (SetYLimits lo hi) b = set_y_limits env lo hi b"
| "exec env sys (Save f) b = save f b"
| "exec env sys (SetXData x) b = set_x_data x b"
| "exec env sys (AddYData y l) b = add_y_data y l b"
| "exec env sys (AddYSets ys ls) b = add_y_sets ys ls b"
| "exec env sys (SetLogScale x y) b = set_log_scale x y b"
| "exec env sys (Create f) b = (fst (create sys f b), fst (snd (create sys f b)))"

definition run :: "builtins \<Rightarrow> filesystem \<Rightarrow> op list \<Rightarrow> builder \<Rightarrow> builder" where
  "run env sys ops b = foldl (\<lambda>b' c. snd (exec env sys c b')) b ops"

text \<open>
  An environment for the examples. \<^verbatim>\<open>float\<close> gives an \<^verbatim>\<open>int\<close> below \<open>2 ^ 53\<close> in
  absolute value as it is, raises an \<^verbatim>\<open>OverflowError\<close> from \<open>2 ^ 1024\<close> on and
  rounds in between (to 53 significant bits, a tie to the even neighbour, with an
  \<^verbatim>\<open>OverflowError\<close> when that gives \<open>2 ^ 1024\<close>); it reads four texts. The file system
  holds a writable directory \<^verbatim>\<open>.\<close>, a read-only directory \<^verbatim>\<open>ro\<close>, a writable file
  \<^verbatim>\<open>a.png\<close>, a read-only file \<^verbatim>\<open>ro/b.png\<close> and a writable device \<^verbatim>\<open>tty\<close>.
\<close>

fun bit_length :: "nat \<Rightarrow> nat" where
  "bit_length n = (if n = 0 then 0 else Suc (bit_length (n div 2)))"

definition example_float_of_int :: "int \<Rightarrow> num option" where
  "example_float_of_int i =
     (let a = nat \<bar>i\<bar> in
      if a < 2 ^ 53 then Some (Fin (of_int i))
      else if 2 ^ 1024 \<le> a then None
      else
        (let e = bit_length a - 53;
             q = a div 2 ^ e;
             r = a mod 2 ^ e;
             q' = (if 2 ^ e < 2 * r \<or> (2 * r = 2 ^ e \<and> odd q) then q + 1 else q);
             m = q' * 2 ^ e
         in if 2 ^ 1024 \<le> m then None
            else Some (Fin (if i < 0 then - of_nat m else of_nat m))))"

definition example_float_of_text :: "string \<Rightarrow> num option" where
  "example_float_of_text s =
     (if s = ''300'' then Some (Fin 300)
      else if s = ''-1'' then Some (Fin (- 1))
      else if s = ''nan'' then Some NaN
      else if s = ''inf'' then Some PInf
      else None)"

definition example_builtins :: builtins where
  "example_builtins =
     \<lparr> float_of_int = example_float_of_int, float_of_text = example_float_of_text \<rparr>"

definition example_fs :: filesystem where
  "example_fs =
     map_of
       [(''.'', \<lparr> node_kind = Directory, node_writable = True \<rparr>),
        (''ro'', \<lparr> node_kind = Directory, node_writable = False \<rparr>),
        (''a.png'', \<lparr> node_kind = Regular, node_writable = True \<rparr>),
        (''ro/b.png'', \<lparr> node_kind = Regular, node_writable = False \<rparr>),
        (''tty'', \<lparr> node_kind = Special, node_writable = True \<rparr>)]"

text \<open>Kinds of calls, for statements about sequences of calls.\<close>

definition is_set_x_data :: "op \<Rightarrow> bool" where
  "is_set_x_data c = (case c of SetXData _ \<Rightarrow> True | _ \<Rightarrow> False)"

definition is_set_log_scale :: "op \<Rightarrow> bool" where
  "is_set_log_scale c = (case c of SetLogScale _ _ \<Rightarrow> True | _ \<Rightarrow> False)"

text \<open>
  The reading of the bulk accumulator in the specification: \<^verbatim>\<open>add_y_data\<close> called for
  each pair of a data set and its label, in order, as a client would write the calls
  one after the other (an exception ends the sequence).
\<close>

primrec add_y_each :: "(data_arg \<times> text_arg option) list \<Rightarrow> builder \<Rightarrow> outcome" where
  "add_y_each [] b = (None, b)"
| "add_y_each (p # rest) b = and_then (add_y_data (fst p) (snd p) b) (add_y_each rest)"

text \<open>The label \<^verbatim>\<open>add_y_data\<close> stores for a label argument whose conversion succeeds.\<close>

definition stored_label :: "text_arg option \<Rightarrow> string option" where
  "stored_label l = (case l of None \<Rightarrow> None | Some a \<Rightarrow> format_text a)"


section \<open>Frame lemmas\<close>

text \<open>
  Which fields each method leaves alone, for single calls, for the loop of
  \<^verbatim>\<open>add_y_sets\<close> and for sequences of calls.
\<close>

lemma and_then_simps [simp]:
  "and_then (None, b) f = f b"
  "and_then (Some e, b) f = (Some e, b)"
  by (simp_all add: and_then_def)

lemma and_then_cases:
  "and_then r f = (case fst r of None \<Rightarrow> f (snd r) | Some e \<Rightarrow> r)"
  by (cases r) (auto simp: and_then_def split: option.splits)

lemma for_each_invariant:
  assumes step: "\<And>i b. i \<in> set js \<Longrightarrow> P b \<Longrightarrow> P (snd (body i b))"
    and start: "P b"
  shows "P (snd (for_each body js b))"
  using assms
proof (induction js arbitrary: b)
  case Nil
  then show ?case by simp
next
  case (Cons j js)
  have Pj: "P (snd (body j b))" using Cons.prems by simp
  show ?case
  proof (cases "fst (body j b)")
    case None
    then have "for_each body (j # js) b = for_each body js (snd (body j b))"
      by (simp add: and_then_cases)
    moreover have "P (snd (for_each body js (snd (body j b))))"
      using Cons.IH [of "snd (body j b)"] Cons.prems(1) Pj by simp
    ultimately show ?thesis by simp
  next
    case (Some e)
    then have "for_each body (j # js) b = body j b"
      by (simp add: and_then_cases)
    with Pj show ?thesis by simp
  qed
qed

lemma add_y_sets_invariant:
  assumes step: "\<And>y l b. P b \<Longrightarrow> P (snd (add_y_data y l b))"
    and start: "P b"
  shows "P (snd (add_y_sets ys ls b))"
proof -
  have loop: "P (snd (for_each (\<lambda>i. add_y_data (f i) (g i)) js b))" for f g js
    by (rule for_each_invariant) (simp_all add: step start)
  show ?thesis
    unfolding add_y_sets_def
    by (simp add: loop start split: seq_arg.splits option.splits)
qed




lemma add_y_data_x_data: "x_data (snd (add_y_data y l b)) = x_data b"
  by (simp add: add_y_data_def split: seq_arg.splits option.splits sum.splits)

lemma add_y_data_log_x: "log_x (snd (add_y_data y l b)) = log_x b"
  by (simp add: add_y_data_def split: seq_arg.splits option.splits sum.splits)

lemma add_y_data_log_y: "log_y (snd (add_y_data y l b)) = log_y b"
  by (simp add: add_y_data_def split: seq_arg.splits option.splits sum.splits)

lemma add_y_data_x_limits: "x_limits (snd (add_y_data y l b)) = x_limits b"
  by (simp add: add_y_data_def split: seq_arg.splits option.splits sum.splits)


lemma add_y_sets_x_data: "x_data (snd (add_y_sets ys ls b)) = x_data b"
  by (rule add_y_sets_invariant [where P = "\<lambda>b'. x_data b' = x_data b"]) (simp_all add: add_y_data_x_data)

lemma add_y_sets_log_x: "log_x (snd (add_y_sets ys ls b)) = log_x b"
  by (rule add_y_sets_invariant [where P = "\<lambda>b'. log_x b' = log_x b"]) (simp_all add: add_y_data_log_x)

lemma add_y_sets_log_y: "log_y (snd (add_y_sets ys ls b)) = log_y b"
  by (rule add_y_sets_invariant [where P = "\<lambda>b'. log_y b' = log_y b"]) (simp_all add: add_y_data_log_y)

lemma add_y_sets_x_limits: "x_limits (snd (add_y_sets ys ls b)) = x_limits b"
  by (rule add_y_sets_invariant [where P = "\<lambda>b'. x_limits b' = x_limits b"]) (simp_all add: add_y_data_x_limits)

lemma create_builder:
  "fst (snd (create sys f b)) = b \<or>
   fst (snd (create sys f b)) = b\<lparr>legend := map (\<lambda>elem. if elem = None then Some [] else elem) (legend b)\<rparr>"
  by (simp add: create_def Let_def split: option.splits sum.splits)


lemma create_x_data: "x_data (fst (snd (create sys f b))) = x_data b"
  using create_builder [of sys f b] by auto

lemma create_log_x: "log_x (fst (snd (create sys f b))) = log_x b"
  using create_builder [of sys f b] by auto

lemma create_log_y: "log_y (fst (snd (create sys f b))) = log_y b"
  using create_builder [of sys f b] by auto

lemma create_x_limits: "x_limits (fst (snd (create sys f b))) = x_limits b"
  using create_builder [of sys f b] by auto


lemma run_invariant:
  assumes "\<And>c b. c \<in> set ops \<Longrightarrow> P b \<Longrightarrow> P (snd (exec env sys c b))" and "P b"
  shows "P (run env sys ops b)"
  using assms unfolding run_def
  by (induction ops arbitrary: b) simp_all




lemma exec_x_data: "\<not> is_set_x_data c \<Longrightarrow> x_data (snd (exec env sys c b)) = x_data b"
  by (cases c)
     (simp_all add: is_set_x_data_def add_y_data_x_data add_y_sets_x_data create_x_data
        set_dpi_def set_grid_def set_x_label_def set_y_label_def set_x_limits_def
        set_y_limits_def save_def set_log_scale_def Let_def
        split: seq_arg.splits option.splits sum.splits)

lemma run_x_data:
  assumes "\<forall>c\<in>set ops. \<not> is_set_x_data c"
  shows "x_data (run env sys ops b) = x_data b"
  by (rule run_invariant [where P = "\<lambda>b'. x_data b' = x_data b"])
     (use assms in \<open>simp_all add: exec_x_data\<close>)

lemma exec_log_x: "\<not> is_set_log_scale c \<Longrightarrow> log_x (snd (exec env sys c b)) = log_x b"
  by (cases c)
     (simp_all add: is_set_log_scale_def add_y_data_log_x add_y_sets_log_x create_log_x
        set_dpi_def set_grid_def set_x_label_def set_y_label_def set_x_limits_def
        set_y_limits_def save_def set_x_data_def Let_def
        split: seq_arg.splits option.splits sum.splits)

lemma exec_log_y: "\<not> is_set_log_scale c \<Longrightarrow> log_y (snd (exec env sys c b)) = log_y b"
  by (cases c)
     (simp_all add: is_set_log_scale_def add_y_data_log_y add_y_sets_log_y create_log_y
        set_dpi_def set_grid_def set_x_label_def set_y_label_def set_x_limits_def
        set_y_limits_def save_def set_x_data_def Let_def
        split: seq_arg.splits option.splits sum.splits)

lemma run_log_x:
  assumes "\<forall>c\<in>set ops. \<not> is_set_log_scale c"
  shows "log_x (run env sys ops b) = log_x b"
  by (rule run_invariant [where P = "\<lambda>b'. log_x b' = log_x b"])
     (use assms in \<open>simp_all add: exec_log_x\<close>)

lemma run_log_y:
  assumes "\<forall>c\<in>set ops. \<not> is_set_log_scale c"
  shows "log_y (run env sys ops b) = log_y b"
  by (rule run_invariant [where P = "\<lambda>b'. log_y b' = log_y b"])
     (use assms in \<open>simp_all add: exec_log_y\<close>)


lemma init_new_builder: "init t = Inr b0 \<Longrightarrow> \<exists>s. b0 = new_builder s"
  by (auto simp: init_def split: option.splits)

section \<open>The bound setters and the retraction of bounds\<close>

text \<open>
  \<^verbatim>\<open>set_x_limits\<close> never assigns the X limits, and no other method assigns them a
  bound: on every builder reached from a new one by calls of the methods, both X bounds
  are unset.
\<close>

lemma set_x_limits_keeps_x_limits: "x_limits (snd (set_x_limits env lo hi b)) = x_limits b"
  by (simp add: set_x_limits_def split: sum.splits)

lemma set_x_data_x_limits_unset:
  "x_limits b = (None, None) \<Longrightarrow> x_limits (snd (set_x_data x b)) = (None, None)"
  by (simp add: set_x_data_def lower_check_def upper_check_def split: seq_arg.splits)

lemma exec_x_limits_unset:
  "x_limits b = (None, None) \<Longrightarrow> x_limits (snd (exec env sys c b)) = (None, None)"
  by (cases c)
     (simp_all add: set_x_limits_keeps_x_limits set_x_data_x_limits_unset add_y_data_x_limits
        add_y_sets_x_limits create_x_limits
        set_dpi_def set_grid_def set_x_label_def set_y_label_def
        set_y_limits_def save_def set_log_scale_def Let_def
        split: seq_arg.splits option.splits sum.splits)

lemma run_x_limits_unset:
  "init t = Inr b0 \<Longrightarrow> x_limits (run env sys ops b0) = (None, None)"
proof -
  assume "init t = Inr b0"
  then obtain s where "b0 = new_builder s" using init_new_builder by blast
  then have "x_limits b0 = (None, None)" by (simp add: new_builder_def)
  then show ?thesis
    by (rule run_invariant [where P = "\<lambda>b'. x_limits b' = (None, None)", rotated])
       (simp add: exec_x_limits_unset)
qed

text \<open>
  Claim C1. Calling \<^verbatim>\<open>set_x_limits\<close> with lower bound \<open>b\<close> should store \<open>b\<close> as the
  lower X bound, kept by a later \<^verbatim>\<open>set_x_data(x)\<close> with \<open>min(x) \<ge> b\<close>. The code
  assigns the pair to the Y limits instead: on a new builder, \<^verbatim>\<open>set_x_limits(1.0)\<close>
  leaves the X limits \<open>(None, None)\<close> and makes the Y limits \<open>(1.0, None)\<close>, and after
  \<^verbatim>\<open>set_x_data([2.0, 3.0])\<close>, whose minimum is not below 1, the lower X bound is
  unset, not 1.
\<close>

theorem set_x_limits_assigns_y_limits:
  "x_limits (snd (set_x_limits example_builtins (Some (PyFloat (Fin 1))) None (new_builder None))) = (None, None)
   \<and> y_limits (snd (set_x_limits example_builtins (Some (PyFloat (Fin 1))) None (new_builder None))) = (Some (Fin 1), None)
   \<and> set_x_data (Seq [Fin 2, Fin 3]) (snd (set_x_limits example_builtins (Some (PyFloat (Fin 1))) None (new_builder None)))
       = (None, (new_builder None)\<lparr>y_limits := (Some (Fin 1), None), x_data := Some [Fin 2, Fin 3]\<rparr>)
   \<and> fst (x_limits (snd (set_x_data (Seq [Fin 2, Fin 3])
         (snd (set_x_limits example_builtins (Some (PyFloat (Fin 1))) None (new_builder None)))))) = None"
  by (simp add: set_x_limits_def set_x_data_def new_builder_def float_if_given_def py_float_def
        lower_check_def upper_check_def)

text \<open>
  Claim C2. The upper bound should be cleared exactly when the maximum of the new data
  exceeds the upper bound. The code compares the maximum with the lower bound: with Y
  limits \<open>(0, 10)\<close>, \<^verbatim>\<open>add_y_data([1.0, 2.0])\<close> clears the upper bound although the
  maximum 2 does not exceed 10. The check in \<^verbatim>\<open>set_x_data\<close> does the same on a
  builder whose X limits are \<open>(0, 10)\<close> (a state that no sequence of calls reaches, as
  \<^verbatim>\<open>set_x_limits\<close> does not assign the X limits).
\<close>

theorem upper_check_compares_with_lower_bound:
  "set_y_limits example_builtins (Given (Some (PyFloat (Fin 0)))) (Some (PyFloat (Fin 10))) (new_builder None)
     = (None, (new_builder None)\<lparr>y_limits := (Some (Fin 0), Some (Fin 10))\<rparr>)
   \<and> y_limits (snd (add_y_data (Seq [Fin 1, Fin 2]) None ((new_builder None)\<lparr>y_limits := (Some (Fin 0), Some (Fin 10))\<rparr>)))
       = (Some (Fin 0), None)
   \<and> x_limits (snd (set_x_data (Seq [Fin 1, Fin 2]) ((new_builder None)\<lparr>x_limits := (Some (Fin 0), Some (Fin 10))\<rparr>)))
       = (Some (Fin 0), None)"
  by (simp add: set_y_limits_def add_y_data_def set_x_data_def new_builder_def float_if_given_def
        py_float_def default_def lower_check_def upper_check_def py_min_def py_max_def
        y_length_error_def)

section \<open>Finalising\<close>

text \<open>
  Claim C5. On a builder with no X series (none has ever been set: no method unsets
  one), \<^verbatim>\<open>create\<close> raises the \<^verbatim>\<open>RuntimeError\<close> "No x data set" whatever the
  destination and the file system, leaves the builder as it was and makes no
  delegation. In particular this holds after any sequence of calls on a new builder
  none of which is \<^verbatim>\<open>set_x_data\<close>, however many Y series they add.
\<close>

theorem create_requires_x_data:
  "(x_data b = None \<longrightarrow> create sys dest b = (Some (RuntimeError NoXData), b, None))
   \<and> (init t = Inr b0 \<and> (\<forall>c\<in>set ops. \<not> is_set_x_data c) \<longrightarrow>
        create sys dest (run env sys ops b0)
          = (Some (RuntimeError NoXData), run env sys ops b0, None))"
proof -
  have state: "create sys' dest' b' = (Some (RuntimeError NoXData), b', None)"
    if "x_data b' = None" for sys' dest' b'
    using that by (simp add: create_def)
  have "x_data (run env sys ops b0) = None"
    if "init t = Inr b0" and "\<forall>c\<in>set ops. \<not> is_set_x_data c"
  proof -
    from that(1) obtain s where "b0 = new_builder s" using init_new_builder by blast
    then have "x_data b0 = None" by (simp add: new_builder_def)
    with that(2) show ?thesis by (simp add: run_x_data)
  qed
  with state show ?thesis by blast
qed

theorem create_requires_x_data_witness:
  "x_data (new_builder None) = None
   \<and> init None = Inr (new_builder None)
   \<and> list_all (\<lambda>c. \<not> is_set_x_data c)
         [AddYData (Seq [Fin 1, Fin 2]) None, AddYData (Seq [Fin 3, Fin 4]) (Some (Str ''a''))]
   \<and> create example_fs (Some (PathStr ''a.png'')) (new_builder None)
        = (Some (RuntimeError NoXData), new_builder None, None)
   \<and> create example_fs (Some (PathStr ''a.png''))
        (run example_builtins example_fs
           [AddYData (Seq [Fin 1, Fin 2]) None, AddYData (Seq [Fin 3, Fin 4]) (Some (Str ''a''))] (new_builder None))
        = (Some (RuntimeError NoXData),
           run example_builtins example_fs
             [AddYData (Seq [Fin 1, Fin 2]) None, AddYData (Seq [Fin 3, Fin 4]) (Some (Str ''a''))] (new_builder None),
           None)"
proof -
  have h1: "x_data (new_builder None) = None" by (simp add: new_builder_def)
  have h2: "init None = Inr (new_builder None)" by (simp add: init_def)
  have h3: "\<forall>c\<in>set [AddYData (Seq [Fin 1, Fin 2]) None, AddYData (Seq [Fin 3, Fin 4]) (Some (Str ''a''))]. \<not> is_set_x_data c"
    by (simp add: is_set_x_data_def)
  show ?thesis
    using h1 h2 h3 list_all_iff
      create_requires_x_data [of "new_builder None" example_fs "Some (PathStr ''a.png'')" None
        "new_builder None" "[AddYData (Seq [Fin 1, Fin 2]) None, AddYData (Seq [Fin 3, Fin 4]) (Some (Str ''a''))]"
        example_builtins]
    by (simp add: list_all_iff)
qed

section \<open>The output resolution\<close>





section \<open>Logarithmic axes\<close>

text \<open>
  Claim C8. Enabling logarithmic mode for an axis clears both bounds of that axis and
  sets its flag. As long as the flag stays set (no call of \<^verbatim>\<open>set_log_scale\<close> comes in
  between), every call of the bound setter of that axis raises the \<^verbatim>\<open>RuntimeError\<close>
  "Limits not allowed for logarithmic axes." and leaves the whole builder, so every
  stored bound, as it was.
\<close>

theorem log_scale_clears_and_blocks_limits:
  "x_limits (snd (set_log_scale (Given True) y b)) = (None, None)
   \<and> log_x (snd (set_log_scale (Given True) y b))
   \<and> y_limits (snd (set_log_scale x (Given True) b)) = (None, None)
   \<and> log_y (snd (set_log_scale x (Given True) b))
   \<and> (log_x b \<and> (\<forall>c\<in>set ops. \<not> is_set_log_scale c) \<longrightarrow>
        set_x_limits env lo hi (run env sys ops b)
          = (Some (RuntimeError LimitsOnLogAxis), run env sys ops b))
   \<and> (log_y b \<and> (\<forall>c\<in>set ops. \<not> is_set_log_scale c) \<longrightarrow>
        set_y_limits env ylo hi (run env sys ops b)
          = (Some (RuntimeError LimitsOnLogAxis), run env sys ops b))"
proof -
  have clear: "x_limits (snd (set_log_scale (Given True) y b)) = (None, None)
      \<and> log_x (snd (set_log_scale (Given True) y b))
      \<and> y_limits (snd (set_log_scale x (Given True) b)) = (None, None)
      \<and> log_y (snd (set_log_scale x (Given True) b))"
    by (simp add: set_log_scale_def default_def Let_def)
  have bx: "set_x_limits env lo hi (run env sys ops b)
      = (Some (RuntimeError LimitsOnLogAxis), run env sys ops b)"
    if "log_x b" and "\<forall>c\<in>set ops. \<not> is_set_log_scale c"
  proof -
    have "log_x (run env sys ops b)" using that by (simp add: run_log_x)
    then show ?thesis by (simp add: set_x_limits_def)
  qed
  have by': "set_y_limits env ylo hi (run env sys ops b)
      = (Some (RuntimeError LimitsOnLogAxis), run env sys ops b)"
    if "log_y b" and "\<forall>c\<in>set ops. \<not> is_set_log_scale c"
  proof -
    have "log_y (run env sys ops b)" using that by (simp add: run_log_y)
    then show ?thesis by (simp add: set_y_limits_def)
  qed
  from clear bx by' show ?thesis by blast
qed

theorem log_scale_clears_and_blocks_limits_witness:
  "log_x (snd (set_log_scale (Given True) (Given True) (new_builder None)))
   \<and> log_y (snd (set_log_scale (Given True) (Given True) (new_builder None)))
   \<and> list_all (\<lambda>c. \<not> is_set_log_scale c) [SetXData (Seq [Fin 1, Fin 2]), AddYData (Seq [Fin 3, Fin 4]) None]
   \<and> set_x_limits example_builtins (Some (PyFloat (Fin 1))) None
        (run example_builtins example_fs [SetXData (Seq [Fin 1, Fin 2]), AddYData (Seq [Fin 3, Fin 4]) None]
           (snd (set_log_scale (Given True) (Given True) (new_builder None))))
        = (Some (RuntimeError LimitsOnLogAxis),
           run example_builtins example_fs [SetXData (Seq [Fin 1, Fin 2]), AddYData (Seq [Fin 3, Fin 4]) None]
             (snd (set_log_scale (Given True) (Given True) (new_builder None))))
   \<and> set_y_limits example_builtins (Given (Some (PyFloat (Fin 1)))) None
        (run example_builtins example_fs [SetXData (Seq [Fin 1, Fin 2]), AddYData (Seq [Fin 3, Fin 4]) None]
           (snd (set_log_scale (Given True) (Given True) (new_builder None))))
        = (Some (RuntimeError LimitsOnLogAxis),
           run example_builtins example_fs [SetXData (Seq [Fin 1, Fin 2]), AddYData (Seq [Fin 3, Fin 4]) None]
             (snd (set_log_scale (Given True) (Given True) (new_builder None))))"
proof -
  have h1: "log_x (snd (set_log_scale (Given True) (Given True) (new_builder None)))
      \<and> log_y (snd (set_log_scale (Given True) (Given True) (new_builder None)))"
    by (simp add: set_log_scale_def default_def Let_def)
  have h2: "\<forall>c\<in>set [SetXData (Seq [Fin 1, Fin 2]), AddYData (Seq [Fin 3, Fin 4]) None]. \<not> is_set_log_scale c"
    by (simp add: is_set_log_scale_def)
  show ?thesis
    using h1 h2
      log_scale_clears_and_blocks_limits
        [where b = "snd (set_log_scale (Given True) (Given True) (new_builder None))"
           and ops = "[SetXData (Seq [Fin 1, Fin 2]), AddYData (Seq [Fin 3, Fin 4]) None]"
           and env = example_builtins and sys = example_fs
           and lo = "Some (PyFloat (Fin 1))" and hi = None and ylo = "Given (Some (PyFloat (Fin 1)))"
           and x = Omitted and y = Omitted]
    by (simp add: list_all_iff)
qed

text \<open>
  Claim C10. Every call of \<^verbatim>\<open>set_log_scale\<close> assigns both flags: the flag of an axis
  whose argument is omitted becomes \<^verbatim>\<open>False\<close> whatever it was. After
  \<^verbatim>\<open>set_log_scale(x=True)\<close> and then \<^verbatim>\<open>set_log_scale(y=True)\<close> only the Y axis is
  logarithmic.
\<close>

theorem set_log_scale_overwrites_both_flags:
  "fst (set_log_scale x y b) = None
   \<and> log_x (snd (set_log_scale x y b)) = default False x
   \<and> log_y (snd (set_log_scale x y b)) = default False y
   \<and> log_x (snd (set_log_scale Omitted y b)) = False
   \<and> log_y (snd (set_log_scale x Omitted b)) = False
   \<and> log_x (snd (set_log_scale Omitted (Given True) (snd (set_log_scale (Given True) Omitted b)))) = False
   \<and> log_y (snd (set_log_scale Omitted (Given True) (snd (set_log_scale (Given True) Omitted b)))) = True"
  by (simp add: set_log_scale_def default_def Let_def)

section \<open>The writability check: its cases\<close>






section \<open>What finalising does to the builder, and the legend\<close>

text \<open>
  What a successful \<^verbatim>\<open>create\<close> does to the builder: every field other than the label
  list stays, and in the label list each \<^verbatim>\<open>None\<close> is replaced by the empty text (lines
  313 to 317 assign to \<^verbatim>\<open>self.__legend[i]\<close>); these are the labels passed on. The
  legend flag is computed before (line 312), from the labels as they are stored when
  \<^verbatim>\<open>create\<close> is called.
\<close>

lemma map_nth_upt_take: "n \<le> length xs \<Longrightarrow> map (\<lambda>i. f (xs ! i)) [0..<n] = map f (take n xs)"
  by (rule nth_equalityI) simp_all

lemma create_changes_only_unset_labels:
  "fst (create sys dest b) = None \<longrightarrow>
     fst (snd (create sys dest b))
       = b\<lparr>legend := map (\<lambda>l. if l = None then Some [] else l) (legend b)\<rparr>
     \<and> map_option (\<lambda>call. map snd (plot_lines call)) (snd (snd (create sys dest b)))
       = Some (take (length (y_data b)) (map (\<lambda>l. if l = None then Some [] else l) (legend b)))"
proof
  assume ok: "fst (create sys dest b) = None"
  have len: "length (y_data b) \<le> length (legend b)"
    using ok by (auto simp: create_def Let_def split: option.splits sum.splits if_splits)
  have "map (\<lambda>i. map (\<lambda>l. if l = None then Some [] else l) (legend b) ! i) [0..<length (y_data b)]
        = take (length (y_data b)) (map (\<lambda>l. if l = None then Some [] else l) (legend b))"
    using map_nth_upt_take [of "length (y_data b)" "map (\<lambda>l. if l = None then Some [] else l) (legend b)" "\<lambda>l. l"] len
    by simp
  then show "fst (snd (create sys dest b))
       = b\<lparr>legend := map (\<lambda>l. if l = None then Some [] else l) (legend b)\<rparr>
     \<and> map_option (\<lambda>call. map snd (plot_lines call)) (snd (snd (create sys dest b)))
       = Some (take (length (y_data b)) (map (\<lambda>l. if l = None then Some [] else l) (legend b)))"
    using ok
    by (auto simp: create_def Let_def comp_def split: option.splits sum.splits if_splits)
qed

lemma create_legend_flag:
  "fst (create sys dest b) = None \<Longrightarrow>
   map_option plot_legend (snd (snd (create sys dest b))) = Some (\<exists>l\<in>set (legend b). l \<noteq> None)"
  by (auto simp: create_def Let_def list_ex_iff split: option.splits sum.splits if_splits)

text \<open>
  Claim C3. A successful \<^verbatim>\<open>create\<close> should leave the stored state of the builder, the
  stored labels included, as it was. After \<^verbatim>\<open>set_x_data([1, 2])\<close> and
  \<^verbatim>\<open>add_y_data([3, 4])\<close> on a new builder the stored labels are \<open>[None]\<close>;
  \<^verbatim>\<open>create()\<close> succeeds and leaves them \<open>['']\<close>: the builder is not what it was.
\<close>

theorem create_changes_stored_labels:
  "fst (create example_fs None
          (run example_builtins example_fs [SetXData (Seq [Fin 1, Fin 2]), AddYData (Seq [Fin 3, Fin 4]) None] (new_builder None)))
     = None
   \<and> legend (run example_builtins example_fs [SetXData (Seq [Fin 1, Fin 2]), AddYData (Seq [Fin 3, Fin 4]) None] (new_builder None))
     = [None]
   \<and> legend (fst (snd (create example_fs None
          (run example_builtins example_fs [SetXData (Seq [Fin 1, Fin 2]), AddYData (Seq [Fin 3, Fin 4]) None] (new_builder None)))))
     = [Some []]
   \<and> fst (snd (create example_fs None
          (run example_builtins example_fs [SetXData (Seq [Fin 1, Fin 2]), AddYData (Seq [Fin 3, Fin 4]) None] (new_builder None))))
     \<noteq> run example_builtins example_fs [SetXData (Seq [Fin 1, Fin 2]), AddYData (Seq [Fin 3, Fin 4]) None] (new_builder None)"
proof -
  have b: "run example_builtins example_fs [SetXData (Seq [Fin 1, Fin 2]), AddYData (Seq [Fin 3, Fin 4]) None] (new_builder None)
      = (new_builder None)\<lparr>x_data := Some [Fin 1, Fin 2], y_data := [[Fin 3, Fin 4]], legend := [None]\<rparr>"
    by (simp add: run_def set_x_data_def add_y_data_def new_builder_def lower_check_def
          upper_check_def py_min_def py_max_def y_length_error_def)
  show ?thesis
    unfolding b by (simp add: create_def new_builder_def Let_def)
qed

text \<open>
  Claim C4. The legend should be enabled exactly when a label other than \<^verbatim>\<open>None\<close> was
  supplied for some Y series, on every \<^verbatim>\<open>create\<close>. With one Y series added with the
  label \<^verbatim>\<open>None\<close>, the first \<^verbatim>\<open>create()\<close> delegates with the legend disabled, and a
  second \<^verbatim>\<open>create()\<close> on the same builder delegates with the legend enabled: the first
  has stored \<^verbatim>\<open>''\<close> for the label, which is not \<^verbatim>\<open>None\<close>.
\<close>

theorem legend_enabled_on_second_create:
  "map_option plot_legend (snd (snd (create example_fs None
        (run example_builtins example_fs
           [SetXData (Seq [Fin 1, Fin 2]), AddYData (Seq [Fin 3, Fin 4]) None] (new_builder None)))))
       = Some False
   \<and> map_option plot_legend (snd (snd (create example_fs None
        (run example_builtins example_fs
           [SetXData (Seq [Fin 1, Fin 2]), AddYData (Seq [Fin 3, Fin 4]) None, Create None] (new_builder None)))))
       = Some True"
proof -
  have b: "run example_builtins example_fs [SetXData (Seq [Fin 1, Fin 2]), AddYData (Seq [Fin 3, Fin 4]) None] (new_builder None)
      = (new_builder None)\<lparr>x_data := Some [Fin 1, Fin 2], y_data := [[Fin 3, Fin 4]], legend := [None]\<rparr>"
    by (simp add: run_def set_x_data_def add_y_data_def new_builder_def lower_check_def
          upper_check_def py_min_def py_max_def y_length_error_def)
  have c: "run example_builtins example_fs
        [SetXData (Seq [Fin 1, Fin 2]), AddYData (Seq [Fin 3, Fin 4]) None, Create None] (new_builder None)
      = (new_builder None)\<lparr>x_data := Some [Fin 1, Fin 2], y_data := [[Fin 3, Fin 4]], legend := [Some []]\<rparr>"
    by (simp add: run_def set_x_data_def add_y_data_def new_builder_def lower_check_def
          upper_check_def py_min_def py_max_def y_length_error_def create_def Let_def)
  show ?thesis
    unfolding b c by (simp add: create_def new_builder_def Let_def)
qed

section \<open>The bulk accumulator\<close>

lemma for_each_map: "for_each body (map f js) b = for_each (\<lambda>i. body (f i)) js b"
  by (induction js arbitrary: b) (simp_all add: and_then_cases split: option.splits)

lemma for_each_upt_zip:
  "length ls = length ys \<Longrightarrow>
   for_each (\<lambda>i. add_y_data (ys ! i) (ls ! i)) [0..<length ys] b = add_y_each (zip ys ls) b"
proof (induction ys arbitrary: ls b)
  case Nil
  then show ?case by simp
next
  case (Cons y ys)
  then obtain l ls' where ls: "ls = l # ls'" and len: "length ls' = length ys"
    by (cases ls) auto
  have "[0..<length (y # ys)] = 0 # map Suc [0..<length ys]"
    by (simp add: upt_conv_Cons map_Suc_upt del: upt_Suc)
  then have "for_each (\<lambda>i. add_y_data ((y # ys) ! i) (ls ! i)) [0..<length (y # ys)] b
      = and_then (add_y_data y l b)
          (for_each (\<lambda>i. add_y_data ((y # ys) ! i) (ls ! i)) (map Suc [0..<length ys]))"
    by (simp add: ls)
  also have "(for_each (\<lambda>i. add_y_data ((y # ys) ! i) (ls ! i)) (map Suc [0..<length ys]))
      = (\<lambda>b'. add_y_each (zip ys ls') b')"
    by (rule ext) (simp add: for_each_map ls Cons.IH [OF len])
  finally show ?case by (simp add: ls)
qed

lemma add_y_data_added:
  "fst (add_y_data y l b) = None \<Longrightarrow>
   map Seq (y_data (snd (add_y_data y l b))) = map Seq (y_data b) @ [y]
   \<and> legend (snd (add_y_data y l b)) = legend b @ [stored_label l]"
  by (auto simp: add_y_data_def stored_label_def split: seq_arg.splits option.splits sum.splits)

lemma add_y_data_not_added:
  "fst (add_y_data y l b) \<noteq> None \<Longrightarrow>
   y_data (snd (add_y_data y l b)) = y_data b \<and> legend (snd (add_y_data y l b)) = legend b"
  by (auto simp: add_y_data_def split: seq_arg.splits option.splits sum.splits)

lemma add_y_each_prefix:
  "length ls = length ys \<Longrightarrow>
   \<exists>k\<le>length ys.
      (fst (add_y_each (zip ys ls) b) = None) = (k = length ys)
      \<and> map Seq (y_data (snd (add_y_each (zip ys ls) b))) = map Seq (y_data b) @ take k ys
      \<and> legend (snd (add_y_each (zip ys ls) b)) = legend b @ map stored_label (take k ls)"
proof (induction ys arbitrary: ls b)
  case Nil
  then show ?case by simp
next
  case (Cons y ys)
  then obtain l ls' where ls: "ls = l # ls'" and len: "length ls' = length ys"
    by (cases ls) auto
  let ?r = "add_y_data y l b"
  show ?case
  proof (cases "fst ?r")
    case None
    have step: "add_y_each (zip (y # ys) (l # ls')) b = add_y_each (zip ys ls') (snd ?r)"
      using None by (simp add: and_then_cases)
    from add_y_data_added [OF None]
    have a1: "map Seq (y_data (snd ?r)) = map Seq (y_data b) @ [y]"
      and a2: "legend (snd ?r) = legend b @ [stored_label l]"
      by (rule conjunct1, rule conjunct2)
    from Cons.IH [OF len, of "snd ?r"] obtain k where k1: "k \<le> length ys"
      and k2: "(fst (add_y_each (zip ys ls') (snd ?r)) = None) = (k = length ys)"
      and k3: "map Seq (y_data (snd (add_y_each (zip ys ls') (snd ?r))))
                 = map Seq (y_data (snd ?r)) @ take k ys"
      and k4: "legend (snd (add_y_each (zip ys ls') (snd ?r)))
                 = legend (snd ?r) @ map stored_label (take k ls')"
      by (elim exE conjE) 
    have "Suc k \<le> length (y # ys)" using k1 by simp
    moreover have "(fst (add_y_each (zip (y # ys) (l # ls')) b) = None) = (Suc k = length (y # ys))"
      unfolding step k2 by simp
    moreover have "map Seq (y_data (snd (add_y_each (zip (y # ys) (l # ls')) b)))
        = map Seq (y_data b) @ take (Suc k) (y # ys)"
      unfolding step k3 a1 by simp
    moreover have "legend (snd (add_y_each (zip (y # ys) (l # ls')) b))
        = legend b @ map stored_label (take (Suc k) (l # ls'))"
      unfolding step k4 a2 by simp
    ultimately show ?thesis unfolding ls by (intro exI [of _ "Suc k"] conjI)
  next
    case (Some e)
    have step: "add_y_each (zip (y # ys) (l # ls')) b = ?r"
      using Some by (simp add: and_then_cases)
    have "fst ?r \<noteq> None" using Some by simp
    from add_y_data_not_added [OF this]
    have n1: "y_data (snd ?r) = y_data b" and n2: "legend (snd ?r) = legend b"
      by (rule conjunct1, rule conjunct2)
    have "(0::nat) \<le> length (y # ys)" by simp
    moreover have "(fst (add_y_each (zip (y # ys) (l # ls')) b) = None) = (0 = length (y # ys))"
      unfolding step using Some by simp
    moreover have "map Seq (y_data (snd (add_y_each (zip (y # ys) (l # ls')) b)))
        = map Seq (y_data b) @ take 0 (y # ys)"
      unfolding step n1 by simp
    moreover have "legend (snd (add_y_each (zip (y # ys) (l # ls')) b))
        = legend b @ map stored_label (take 0 (l # ls'))"
      unfolding step n2 by simp
    ultimately show ?thesis unfolding ls by (intro exI [of _ "0::nat"] conjI)
  qed
qed

text \<open>
  Claim C6. \<^verbatim>\<open>add_y_sets([a, c], ["L1", "L2"])\<close> gives the outcome (the exception, if
  any, and the whole builder) of \<^verbatim>\<open>add_y_data(a, "L1")\<close> followed, if it returns, by
  \<^verbatim>\<open>add_y_data(c, "L2")\<close>. For any list of data sets and any list of labels of the same
  length, \<^verbatim>\<open>add_y_sets\<close> gives the outcome of the calls of \<^verbatim>\<open>add_y_data\<close> made one
  after the other on the pairs in order; some number \<open>k\<close> of leading entries has been
  appended to the Y series and to the labels, in order, with \<open>k\<close> the number of all
  entries exactly when no exception is raised: the entries before a failing one stay.
\<close>

theorem add_y_sets_is_add_y_data_in_order:
  "add_y_sets (Seq [a, c]) (Some (Seq [Some (Str l1), Some (Str l2)])) b
     = and_then (add_y_data a (Some (Str l1)) b) (add_y_data c (Some (Str l2)))
   \<and> (length ls = length ys \<longrightarrow>
        add_y_sets (Seq ys) (Some (Seq ls)) b = add_y_each (zip ys ls) b
        \<and> (\<exists>k\<le>length ys.
              (fst (add_y_sets (Seq ys) (Some (Seq ls)) b) = None) = (k = length ys)
              \<and> map Seq (y_data (snd (add_y_sets (Seq ys) (Some (Seq ls)) b)))
                  = map Seq (y_data b) @ take k ys
              \<and> legend (snd (add_y_sets (Seq ys) (Some (Seq ls)) b))
                  = legend b @ map stored_label (take k ls)))"
proof -
  have eq: "add_y_sets (Seq ys') (Some (Seq ls')) b = add_y_each (zip ys' ls') b"
    if "length ls' = length ys'" for ys' ls'
    using that by (simp add: add_y_sets_def for_each_upt_zip)
  have two: "add_y_sets (Seq [a, c]) (Some (Seq [Some (Str l1), Some (Str l2)])) b
      = and_then (add_y_data a (Some (Str l1)) b) (add_y_data c (Some (Str l2)))"
  proof -
    have "add_y_each (zip [a, c] [Some (Str l1), Some (Str l2)]) b
        = and_then (add_y_data a (Some (Str l1)) b) (add_y_data c (Some (Str l2)))"
      by (cases "add_y_data a (Some (Str l1)) b")
         (auto simp: and_then_def split: option.splits prod.splits)
    then show ?thesis by (simp add: eq)
  qed
  have gen: "add_y_sets (Seq ys) (Some (Seq ls)) b = add_y_each (zip ys ls) b
        \<and> (\<exists>k\<le>length ys.
              (fst (add_y_sets (Seq ys) (Some (Seq ls)) b) = None) = (k = length ys)
              \<and> map Seq (y_data (snd (add_y_sets (Seq ys) (Some (Seq ls)) b)))
                  = map Seq (y_data b) @ take k ys
              \<and> legend (snd (add_y_sets (Seq ys) (Some (Seq ls)) b))
                  = legend b @ map stored_label (take k ls))"
    if len: "length ls = length ys"
    unfolding eq [OF len] using add_y_each_prefix [OF len, of b] by (intro conjI refl)
  show ?thesis
  proof (rule conjI)
    show "add_y_sets (Seq [a, c]) (Some (Seq [Some (Str l1), Some (Str l2)])) b
        = and_then (add_y_data a (Some (Str l1)) b) (add_y_data c (Some (Str l2)))"
      by (rule two)
  next
    show "length ls = length ys \<longrightarrow>
        add_y_sets (Seq ys) (Some (Seq ls)) b = add_y_each (zip ys ls) b
        \<and> (\<exists>k\<le>length ys.
              (fst (add_y_sets (Seq ys) (Some (Seq ls)) b) = None) = (k = length ys)
              \<and> map Seq (y_data (snd (add_y_sets (Seq ys) (Some (Seq ls)) b)))
                  = map Seq (y_data b) @ take k ys
              \<and> legend (snd (add_y_sets (Seq ys) (Some (Seq ls)) b))
                  = legend b @ map stored_label (take k ls))"
      by (rule impI) (rule gen)
  qed
qed

theorem add_y_sets_is_add_y_data_in_order_witness:
  "length [Some (Str ''L1''), Some (Str ''L2''), None] = length [Seq [Fin 1, Fin 2], Seq [Fin 3], Seq [Fin 4, Fin 5]]
   \<and> add_y_sets (Seq [Seq [Fin 1, Fin 2], Seq [Fin 3], Seq [Fin 4, Fin 5]])
        (Some (Seq [Some (Str ''L1''), Some (Str ''L2''), None])) (new_builder None)
       = add_y_each (zip [Seq [Fin 1, Fin 2], Seq [Fin 3], Seq [Fin 4, Fin 5]] [Some (Str ''L1''), Some (Str ''L2''), None])
           (new_builder None)
   \<and> add_y_sets (Seq [Seq [Fin 1, Fin 2], Seq [Fin 3], Seq [Fin 4, Fin 5]])
        (Some (Seq [Some (Str ''L1''), Some (Str ''L2''), None])) (new_builder None)
       = (Some (RuntimeError (YYLengthMismatch 1 2)),
          (new_builder None)\<lparr>legend := [Some ''L1''], y_data := [[Fin 1, Fin 2]]\<rparr>)"
proof -
  have h: "length [Some (Str ''L1''), Some (Str ''L2''), None]
      = length [Seq [Fin 1, Fin 2], Seq [Fin 3], Seq [Fin 4, Fin 5]]"
    by simp
  have v: "add_y_each (zip [Seq [Fin 1, Fin 2], Seq [Fin 3], Seq [Fin 4, Fin 5]] [Some (Str ''L1''), Some (Str ''L2''), None])
        (new_builder None)
      = (Some (RuntimeError (YYLengthMismatch 1 2)),
         (new_builder None)\<lparr>legend := [Some ''L1''], y_data := [[Fin 1, Fin 2]]\<rparr>)"
    by (simp add: add_y_data_def new_builder_def lower_check_def upper_check_def py_min_def
          py_max_def y_length_error_def format_text_def)
  show ?thesis
    using h v
      add_y_sets_is_add_y_data_in_order
        [where ys = "[Seq [Fin 1, Fin 2], Seq [Fin 3], Seq [Fin 4, Fin 5]]"
           and ls = "[Some (Str ''L1''), Some (Str ''L2''), None]"
           and b = "new_builder None" and a = "Seq []" and c = "Seq []" and ?l1.0 = "[]" and ?l2.0 = "[]"]
    by simp
qed

end
